theory Spec2Isabelle
  imports Complex_Main "HOL-Library.Sublist"
begin

section \<open>Strings\<close>

text \<open>
  The recipe tools work on JavaScript strings. A string is modelled as a list of
  characters, each standing for one code unit below 256 (the Latin-1 range); the
  operations below are the ones the source calls: \<^verbatim>\<open>includes\<close>,
  \<^verbatim>\<open>toLowerCase\<close>, \<^verbatim>\<open>trim\<close> and \<^verbatim>\<open>split\<close> with the two regular
  expressions \<^verbatim>\<open>/[,;]/\<close> and \<^verbatim>\<open>/\s+/\<close>.
\<close>

text \<open>\<^verbatim>\<open>hay.includes(needle)\<close>: \<^verbatim>\<open>needle\<close> occurs in \<^verbatim>\<open>hay\<close> at some position.\<close>

fun includes_str :: "string \<Rightarrow> string \<Rightarrow> bool" where
  "includes_str [] needle = (needle = [])"
| "includes_str (c # cs) needle = (prefix needle (c # cs) \<or> includes_str cs needle)"

text \<open>\<^verbatim>\<open>toLowerCase\<close> on the Latin-1 range: A-Z and the accented capitals
  0xC0-0xDE (without the multiplication sign 0xD7) move up by 32.\<close>

definition toLowerCase_char :: "char \<Rightarrow> char" where
  "toLowerCase_char c =
     (let n = (of_char c :: nat)
      in if (65 \<le> n \<and> n \<le> 90) \<or> (192 \<le> n \<and> n \<le> 222 \<and> n \<noteq> 215)
         then char_of (n + 32) else c)"

definition toLowerCase :: "string \<Rightarrow> string" where
  "toLowerCase s = map toLowerCase_char s"

text \<open>The class \<^verbatim>\<open>\s\<close> below 256: tab, line feed, vertical tab, form feed,
  carriage return, space and the no-break space.\<close>

definition is_space :: "char \<Rightarrow> bool" where
  "is_space c = ((of_char c :: nat) \<in> {9, 10, 11, 12, 13, 32, 160})"

text \<open>The class \<^verbatim>\<open>[,;]\<close>.\<close>

definition is_delim :: "char \<Rightarrow> bool" where
  "is_delim c = (c = CHR '','' \<or> c = CHR '';'')"

definition trim :: "string \<Rightarrow> string" where
  "trim s = rev (dropWhile is_space (rev (dropWhile is_space s)))"

text \<open>
  \<^verbatim>\<open>s.split(/[,;]/)\<close>: the text is cut at every separator character, and empty
  pieces are kept. The empty text gives one empty piece, since the expression does
  not match the empty string.
\<close>

fun split_sep :: "(char \<Rightarrow> bool) \<Rightarrow> string \<Rightarrow> string list" where
  "split_sep P [] = [[]]"
| "split_sep P (c # cs) =
     (if P c then [] # split_sep P cs
      else (case split_sep P cs of
              [] \<Rightarrow> [[c]]
            | t # ts \<Rightarrow> (c # t) # ts))"

text \<open>
  \<^verbatim>\<open>s.split(/\s+/)\<close>: the text is cut at every maximal run of separator
  characters; a run at the start or at the end leaves an empty piece there.
\<close>

function split_runs :: "(char \<Rightarrow> bool) \<Rightarrow> string \<Rightarrow> string list" where
  "split_runs P [] = [[]]"
| "split_runs P (c # cs) =
     (if P c then [] # split_runs P (dropWhile P cs)
      else (case split_runs P cs of
              [] \<Rightarrow> [[c]]
            | t # ts \<Rightarrow> (c # t) # ts))"
  by pat_completeness auto
termination
  by (relation "measure (\<lambda>(P, s). length s)")
     (auto simp: le_imp_less_Suc length_dropWhile_le)

text \<open>
  \<^verbatim>\<open>xs.slice(start, fin)\<close>: a negative bound counts from the end of the array,
  and both bounds are clamped to the array.
\<close>

definition slice :: "int \<Rightarrow> int \<Rightarrow> 'a list \<Rightarrow> 'a list" where
  "slice start fin xs =
     (let len = int (length xs);
          k = (if start < 0 then max (len + start) 0 else min start len);
          final = (if fin < 0 then max (len + fin) 0 else min fin len)
      in take (nat (final - k)) (drop (nat k) xs))"

text \<open>
  \<^verbatim>\<open>xs.sort(cmp)\<close>: the stable sort of the language, here by insertion. An
  element goes before the first later element that the comparator does not put
  before it, so that elements the comparator holds equal keep their order.
\<close>

fun insort_cmp :: "('a \<Rightarrow> 'a \<Rightarrow> real) \<Rightarrow> 'a \<Rightarrow> 'a list \<Rightarrow> 'a list" where
  "insort_cmp cmp x [] = [x]"
| "insort_cmp cmp x (y # ys) =
     (if cmp x y \<le> 0 then x # y # ys else y # insort_cmp cmp x ys)"

definition sort_cmp :: "('a \<Rightarrow> 'a \<Rightarrow> real) \<Rightarrow> 'a list \<Rightarrow> 'a list" where
  "sort_cmp cmp xs = foldr (insort_cmp cmp) xs []"

section \<open>Recipes and the store\<close>

text \<open>
  A row of the table \<^verbatim>\<open>Recipe\<close>, with the columns of \<^verbatim>\<open>schema.prisma\<close> that
  matter here: the identifier, the title and the ingredients, which are required,
  and the category, which may be null. The remaining columns are passed through
  unchanged and are left out.
\<close>

record recipe =
  id_recipe :: int
  title :: string
  category :: "string option"
  ingredients :: string

text \<open>
  A property of a row read by its name, for the text columns kept here;
  \<^verbatim>\<open>None\<close> stands for null and for undefined. The row has the properties of
  the schema and no other: \<^verbatim>\<open>recipe.name\<close> and \<^verbatim>\<open>recipe.cuisine\<close>, columns of
  an earlier schema that a migration dropped for the title and the category, are
  undefined.
\<close>

definition row_property :: "recipe \<Rightarrow> string \<Rightarrow> string option" where
  "row_property r k =
     (if k = ''title'' then Some (title r)
      else if k = ''category'' then category r
      else if k = ''ingredients'' then Some (ingredients r)
      else None)"

text \<open>The text columns of the schema, the ones a \<^verbatim>\<open>contains\<close> filter may name.\<close>

definition string_columns :: "string list" where
  "string_columns =
     [''title'', ''url'', ''category'', ''author'', ''description'', ''ingredients'',
      ''directions'', ''prepTime'', ''cookTime'', ''totalTime'', ''yields'',
      ''instructionList'', ''image'']"

text \<open>\<^verbatim>\<open>interface ScoredRecipe extends Recipe\<close>.\<close>

record scoredRecipe = recipe +
  matchPercentage :: real
  missingIngredientsCount :: int

text \<open>
  The failures of the functions: the \<^verbatim>\<open>Error\<close> thrown for a reference recipe
  that does not exist, carrying the identifier of its message, and the two errors
  of the database client, which the functions log and throw again: the rejection
  of a query that names a column the schema does not have, and a failure of the
  database.
\<close>

datatype error = RecipeNotFound int | QueryValidation | StoreFailure

datatype store = Unavailable | Table "recipe list"

text \<open>
  Modelled from the spec: the database client, which is a library outside the
  repository. \<^verbatim>\<open>findUnique\<close> looks a row up by identifier; \<^verbatim>\<open>findMany\<close>
  keeps the rows of a predicate, orders them by identifier, the largest first,
  and takes a number of them (a negative number takes from the end of the ordered
  rows); \<^verbatim>\<open>contains\<close> is case-sensitive containment and is false of a null
  column.
\<close>

definition order_by_id_desc :: "recipe list \<Rightarrow> recipe list" where
  "order_by_id_desc rows = sort_key (\<lambda>r. - id_recipe r) rows"

definition prisma_take :: "int \<Rightarrow> 'a list \<Rightarrow> 'a list" where
  "prisma_take n xs = (if 0 \<le> n then take (nat n) xs else drop (length xs - nat (- n)) xs)"

fun findUnique :: "store \<Rightarrow> int \<Rightarrow> error + recipe option" where
  "findUnique Unavailable i = Inl StoreFailure"
| "findUnique (Table rows) i = Inr (find (\<lambda>r. id_recipe r = i) rows)"

fun findMany :: "store \<Rightarrow> (recipe \<Rightarrow> bool) \<Rightarrow> int \<Rightarrow> error + recipe list" where
  "findMany Unavailable wh n = Inl StoreFailure"
| "findMany (Table rows) wh n = Inr (prisma_take n (order_by_id_desc (filter wh rows)))"

fun contains :: "string option \<Rightarrow> string \<Rightarrow> bool" where
  "contains None keyword = False"
| "contains (Some s) keyword = includes_str s keyword"

text \<open>
  A \<^verbatim>\<open>where\<close> clause of the shape the similarity query has, an \<^verbatim>\<open>OR\<close> of
  groups, each an \<^verbatim>\<open>OR\<close> of conditions \<^verbatim>\<open>{ column: { contains: keyword } }\<close>,
  is a list of lists of pairs of a column and a keyword. The client checks a query
  against the schema before it runs it, and rejects a clause that names a column
  which is not a text column of the schema; the empty \<^verbatim>\<open>OR\<close> holds of no row.
\<close>

definition valid_where :: "(string \<times> string) list list \<Rightarrow> bool" where
  "valid_where groups =
     list_all (list_all (\<lambda>(column, keyword). column \<in> set string_columns)) groups"

definition holds_where :: "(string \<times> string) list list \<Rightarrow> recipe \<Rightarrow> bool" where
  "holds_where groups c =
     list_ex (list_ex (\<lambda>(column, keyword). contains (row_property c column) keyword)) groups"

text \<open>\<^verbatim>\<open>findMany\<close> with the clause \<^verbatim>\<open>{ id: { not: notId }, OR: groups }\<close>.\<close>

fun findMany_where ::
  "store \<Rightarrow> int \<Rightarrow> (string \<times> string) list list \<Rightarrow> int \<Rightarrow> error + recipe list" where
  "findMany_where Unavailable notId groups n = Inl StoreFailure"
| "findMany_where (Table rows) notId groups n =
     (if valid_where groups
      then findMany (Table rows) (\<lambda>c. id_recipe c \<noteq> notId \<and> holds_where groups c) n
      else Inl QueryValidation)"

section \<open>Recipes by available ingredients\<close>

text \<open>The entries of \<^verbatim>\<open>availableIngredients\<close> found in the lower-cased text.\<close>

definition matchingIngredients :: "string list \<Rightarrow> recipe \<Rightarrow> string list" where
  "matchingIngredients availableIngredients r =
     (let recipeIngredients = toLowerCase (ingredients r)
      in filter (\<lambda>ingredient. includes_str recipeIngredients (toLowerCase ingredient))
           availableIngredients)"

definition totalIngredients :: "recipe \<Rightarrow> nat" where
  "totalIngredients r = length (split_sep is_delim (ingredients r))"

text \<open>
  The callback that scores one recipe. Numbers are modelled exactly: the counts as
  natural numbers, the percentage as a real number, without the rounding of the
  quotient and of the product.
\<close>

definition scoreRecipe :: "string list \<Rightarrow> recipe \<Rightarrow> scoredRecipe" where
  "scoreRecipe availableIngredients r =
     (let matching = matchingIngredients availableIngredients r;
          total = totalIngredients r
      in \<lparr> id_recipe = id_recipe r, title = title r, category = category r,
           ingredients = ingredients r,
           matchPercentage = real (length matching) / real total * 100,
           missingIngredientsCount = int total - int (length matching) \<rparr>)"

text \<open>The filter, the sort and the truncation of the scored recipes.\<close>

definition sortedRecipes :: "scoredRecipe list \<Rightarrow> int \<Rightarrow> scoredRecipe list" where
  "sortedRecipes scoredRecipes limit =
     slice 0 limit
       (sort_cmp (\<lambda>a b. matchPercentage b - matchPercentage a)
          (filter (\<lambda>r. matchPercentage r > 50) scoredRecipes))"

definition findRecipesByAvailableIngredients ::
  "store \<Rightarrow> string list \<Rightarrow> int \<Rightarrow> error + scoredRecipe list" where
  "findRecipesByAvailableIngredients st availableIngredients limit =
     (if availableIngredients = [] then Inr []
      else (case findMany st (\<lambda>r. True) 1000 of
              Inl e \<Rightarrow> Inl e
            | Inr recipes \<Rightarrow>
                Inr (sortedRecipes (map (scoreRecipe availableIngredients) recipes) limit)))"

section \<open>Similar recipes\<close>

definition extractKeyIngredients :: "string \<Rightarrow> string list" where
  "extractKeyIngredients s =
     slice 0 5 (filter (\<lambda>item. length item > 3) (map trim (split_sep is_delim s)))"

text \<open>
  The keywords of the reference recipe. The function takes the words of
  \<^verbatim>\<open>recipe.name\<close>, then \<^verbatim>\<open>recipe.cuisine\<close>, then the key ingredients; a
  property that is undefined, null or empty gives none.
\<close>

definition keywords_of :: "recipe \<Rightarrow> string list" where
  "keywords_of r =
     (case row_property r ''name'' of
        None \<Rightarrow> []
      | Some n \<Rightarrow> if n = [] then [] else split_runs is_space n)
     @ (case row_property r ''cuisine'' of
          None \<Rightarrow> []
        | Some c \<Rightarrow> if c = [] then [] else [c])
     @ (if ingredients r = [] then [] else extractKeyIngredients (ingredients r))"

text \<open>
  The \<^verbatim>\<open>OR\<close> of the query for similar recipes: one group for each keyword,
  on the columns \<^verbatim>\<open>name\<close>, \<^verbatim>\<open>cuisine\<close> and \<^verbatim>\<open>ingredients\<close>.
\<close>

definition similar_where :: "string list \<Rightarrow> (string \<times> string) list list" where
  "similar_where kws =
     map (\<lambda>keyword. [(''name'', keyword), (''cuisine'', keyword), (''ingredients'', keyword)])
       kws"

definition getSimilarRecipes :: "store \<Rightarrow> int \<Rightarrow> int \<Rightarrow> error + recipe list" where
  "getSimilarRecipes st recipeId limit =
     (case findUnique st recipeId of
        Inl e \<Rightarrow> Inl e
      | Inr None \<Rightarrow> Inl (RecipeNotFound recipeId)
      | Inr (Some r) \<Rightarrow> findMany_where st recipeId (similar_where (keywords_of r)) limit)"

section \<open>A store of five recipes\<close>

text \<open>
  A small table, in the order of insertion, and a pantry of two ingredients; the
  examples below are evaluated on them.
\<close>

definition chicken_rice :: recipe where
  "chicken_rice = \<lparr> id_recipe = 1, title = ''Chicken Rice'', category = Some ''Asian'',
                     ingredients = ''chicken, rice'' \<rparr>"

definition garlic_bread :: recipe where
  "garlic_bread = \<lparr> id_recipe = 2, title = ''Garlic Bread'', category = None,
                     ingredients = ''bread; garlic'' \<rparr>"

definition roast_chicken :: recipe where
  "roast_chicken = \<lparr> id_recipe = 3, title = ''Roast Chicken'', category = Some ''French'',
                      ingredients = ''Chicken'' \<rparr>"

definition chicken_soup :: recipe where
  "chicken_soup = \<lparr> id_recipe = 4, title = ''Chicken Soup'', category = None,
                     ingredients = ''chicken, rice, salt'' \<rparr>"

definition garlic_chicken :: recipe where
  "garlic_chicken = \<lparr> id_recipe = 5, title = ''Garlic Chicken'', category = Some ''Italian'',
                       ingredients = ''chicken, garlic'' \<rparr>"

definition example_store :: store where
  "example_store = Table [chicken_rice, garlic_bread, roast_chicken, chicken_soup, garlic_chicken]"

definition pantry :: "string list" where
  "pantry = [''chicken'', ''rice'']"

section \<open>Facts about the operations\<close>

lemma includes_str_sublist: "includes_str hay needle = sublist needle hay"
  by (induction hay) (auto simp: sublist_Cons_right)

lemma split_sep_not_Nil: "split_sep P s \<noteq> []"
  by (induction s) (auto split: list.splits)

lemma length_split_sep: "length (split_sep P s) = Suc (length (filter P s))"
  by (induction s) (auto split: list.splits simp: split_sep_not_Nil)

lemma split_sep_no_sep: "\<forall>c\<in>set s. \<not> P c \<Longrightarrow> split_sep P s = [s]"
  by (induction s) auto

lemma totalIngredients_pos: "0 < totalIngredients r"
  by (simp add: totalIngredients_def length_split_sep)

lemma length_matchingIngredients_le:
  "length (matchingIngredients availableIngredients r) \<le> length availableIngredients"
  by (simp add: matchingIngredients_def)

lemma matchPercentage_scoreRecipe:
  "matchPercentage (scoreRecipe av r) =
     real (length (matchingIngredients av r)) / real (totalIngredients r) * 100"
  by (simp add: scoreRecipe_def Let_def)

lemma missingIngredientsCount_scoreRecipe:
  "missingIngredientsCount (scoreRecipe av r) =
     int (totalIngredients r) - int (length (matchingIngredients av r))"
  by (simp add: scoreRecipe_def Let_def)

lemma insort_cmp_insort_key:
  "insort_cmp (\<lambda>a b. f b - f a) x ys = insort_key (\<lambda>e. - f e) x ys"
  by (induction ys) auto

lemma sort_cmp_sort_key:
  "sort_cmp (\<lambda>a b. f b - f a) xs = sort_key (\<lambda>e. - f e) xs"
  by (induction xs) (simp_all add: sort_cmp_def insort_cmp_insort_key)

lemma slice_0_take:
  "slice 0 n xs = take (nat (if n < 0 then int (length xs) + n else n)) xs"
  by (auto simp: slice_def Let_def min_def max_def)

lemma slice_0_prefix: "prefix (slice 0 n xs) xs"
  by (simp add: slice_0_take take_is_prefix)

lemma set_slice_0: "set (slice 0 n xs) \<subseteq> set xs"
  by (simp add: slice_0_take set_take_subset)

lemma is_delim_not_space: "is_space c \<Longrightarrow> \<not> is_delim c"
  by (auto simp: is_space_def is_delim_def)

text \<open>The equations that evaluate the operations on a concrete text.\<close>

lemmas eval_simps = toLowerCase_def toLowerCase_char_def char_of_def bit_Suc_0_iff
  is_delim_def is_space_def matchingIngredients_def totalIngredients_def scoreRecipe_def

text \<open>
  The counts of the scorer. The matching entries are the entries of the list,
  duplicates included, whose lower-cased form is a contiguous part of the
  lower-cased ingredients text; the total is one more than the number of commas and
  semicolons of the raw text; the missing count is their difference, not clamped.
\<close>

lemma scorer_counts:
  "length (matchingIngredients av r)
     = length (filter (\<lambda>a. sublist (toLowerCase a) (toLowerCase (ingredients r))) av)
   \<and> totalIngredients r
       = 1 + length (filter (\<lambda>c. c = CHR '','' \<or> c = CHR '';'') (ingredients r))
   \<and> missingIngredientsCount (scoreRecipe av r)
       = int (totalIngredients r) - int (length (matchingIngredients av r))"
proof -
  have a: "length (matchingIngredients av r)
     = length (filter (\<lambda>a. sublist (toLowerCase a) (toLowerCase (ingredients r))) av)"
    by (simp add: matchingIngredients_def Let_def includes_str_sublist)
  have "is_delim = (\<lambda>c. c = CHR '','' \<or> c = CHR '';'')"
    by (simp add: is_delim_def fun_eq_iff)
  then have b: "totalIngredients r
       = 1 + length (filter (\<lambda>c. c = CHR '','' \<or> c = CHR '';'') (ingredients r))"
    by (simp add: totalIngredients_def length_split_sep)
  have c: "missingIngredientsCount (scoreRecipe av r)
       = int (totalIngredients r) - int (length (matchingIngredients av r))"
    by (rule missingIngredientsCount_scoreRecipe)
  from a b c show ?thesis by blast
qed

lemma scorer_example:
  "matchingIngredients [''Chicken'', ''RICE'', ''beef'', ''rice'']
     \<lparr> id_recipe = 6, title = ''Pilaf'', category = None,
       ingredients = ''CHICKEN; Rice, salt'' \<rparr> = [''Chicken'', ''RICE'', ''rice'']
   \<and> totalIngredients \<lparr> id_recipe = 6, title = ''Pilaf'', category = None,
       ingredients = ''CHICKEN; Rice, salt'' \<rparr> = 3
   \<and> missingIngredientsCount (scoreRecipe [''s'', ''a'']
         \<lparr> id_recipe = 4, title = ''Brine'', category = None, ingredients = ''Salt'' \<rparr>) = - 1"
  by (simp add: eval_simps)

lemma sortedRecipes_take:
  "sortedRecipes xs limit =
     slice 0 limit (sort_key (\<lambda>e. - matchPercentage e) (filter (\<lambda>r. matchPercentage r > 50) xs))"
  by (simp add: sortedRecipes_def sort_cmp_sort_key)

lemma set_sortedRecipes:
  "set (sortedRecipes xs limit) \<subseteq> {e \<in> set xs. matchPercentage e > 50}"
  using set_slice_0 [of limit "sort_key (\<lambda>e. - matchPercentage e) (filter (\<lambda>r. matchPercentage r > 50) xs)"]
  by (auto simp: sortedRecipes_take)

lemma sorted_sortedRecipes:
  "sorted_wrt (\<lambda>a b. matchPercentage b \<le> matchPercentage a) (sortedRecipes xs limit)"
proof -
  let ?ys = "sort_key (\<lambda>e. - matchPercentage e) (filter (\<lambda>r. matchPercentage r > 50) xs)"
  have "sorted (map (\<lambda>e. - matchPercentage e) ?ys)" by (rule sorted_sort_key)
  then have "sorted_wrt (\<lambda>a b. matchPercentage b \<le> matchPercentage a) ?ys"
    by (simp add: sorted_wrt_map)
  then have "sorted_wrt (\<lambda>a b. matchPercentage b \<le> matchPercentage a) (take n ?ys)" for n
    by (rule sorted_wrt_take)
  then show ?thesis by (simp add: sortedRecipes_take slice_0_take)
qed

lemma prefix_filter: "prefix xs ys \<Longrightarrow> prefix (filter P xs) (filter P ys)"
  by (auto simp: prefix_def)

lemma stable_sortedRecipes:
  "prefix (filter (\<lambda>e. matchPercentage e = v) (sortedRecipes xs limit))
          (filter (\<lambda>e. matchPercentage e = v) xs)"
proof -
  let ?fs = "filter (\<lambda>r. matchPercentage r > 50) xs"
  let ?ys = "sort_key (\<lambda>e. - matchPercentage e) ?fs"
  have "filter (\<lambda>e. - matchPercentage e = - v) ?ys = filter (\<lambda>e. - matchPercentage e = - v) ?fs"
    by (rule sort_key_stable)
  then have st: "filter (\<lambda>e. matchPercentage e = v) ?ys = filter (\<lambda>e. matchPercentage e = v) ?fs"
    by simp
  have "prefix (sortedRecipes xs limit) ?ys"
    by (simp add: sortedRecipes_take slice_0_prefix)
  then have p: "prefix (filter (\<lambda>e. matchPercentage e = v) (sortedRecipes xs limit))
                  (filter (\<lambda>e. matchPercentage e = v) ?fs)"
    using prefix_filter [of "sortedRecipes xs limit" ?ys "\<lambda>e. matchPercentage e = v"] st by simp
  show ?thesis
  proof (cases "v > 50")
    case True
    then have "filter (\<lambda>e. matchPercentage e = v) ?fs = filter (\<lambda>e. matchPercentage e = v) xs"
      by (auto intro: filter_cong)
    with p show ?thesis by simp
  next
    case False
    then have "filter (\<lambda>e. matchPercentage e = v) ?fs = []"
      by (auto simp: filter_empty_conv)
    with p show ?thesis by simp
  qed
qed

lemma sortedRecipes_limit_0: "sortedRecipes xs 0 = []"
  by (simp add: sortedRecipes_def slice_def)

lemma length_sortedRecipes_negative:
  "limit < 0 \<Longrightarrow>
   length (sortedRecipes xs limit)
     = nat (int (length (filter (\<lambda>r. matchPercentage r > 50) xs)) + limit)"
  by (simp add: sortedRecipes_take slice_0_take)




lemma name_not_column: "''name'' \<notin> set string_columns"
  by (simp add: string_columns_def)

lemma similar_where_rejected: "kws \<noteq> [] \<Longrightarrow> \<not> valid_where (similar_where kws)"
  by (cases kws) (simp_all add: valid_where_def similar_where_def name_not_column)

lemma findMany_no_row: "findMany st (\<lambda>c. False) n = Inr rs \<Longrightarrow> rs = []"
  by (cases st) (auto simp: order_by_id_desc_def prisma_take_def)

lemma getSimilarRecipes_no_candidate:
  "getSimilarRecipes st recipeId limit = Inr rs \<Longrightarrow> rs = []"
proof -
  assume g: "getSimilarRecipes st recipeId limit = Inr rs"
  then obtain rows where st: "st = Table rows"
    by (cases st) (auto simp: getSimilarRecipes_def)
  from g st obtain r where
    q: "findMany_where (Table rows) recipeId (similar_where (keywords_of r)) limit = Inr rs"
    by (auto simp: getSimilarRecipes_def split: option.splits)
  show ?thesis
  proof (cases "keywords_of r = []")
    case True
    with q have "findMany (Table rows) (\<lambda>c. False) limit = Inr rs"
      by (simp add: similar_where_def valid_where_def holds_where_def)
    then show ?thesis by (rule findMany_no_row)
  next
    case False
    then have "\<not> valid_where (similar_where (keywords_of r))"
      by (rule similar_where_rejected)
    with q show ?thesis by simp
  qed
qed

section \<open>The examples, evaluated\<close>

lemmas example_defs = chicken_rice_def garlic_bread_def roast_chicken_def chicken_soup_def
  garlic_chicken_def example_store_def pantry_def

lemmas store_simps = order_by_id_desc_def prisma_take_def

lemma example_fetch:
  "findMany example_store (\<lambda>r. True) 1000
     = Inr [garlic_chicken, chicken_soup, roast_chicken, garlic_bread, chicken_rice]"
  by (simp add: example_defs store_simps)

lemma example_scores:
  "map (matchPercentage \<circ> scoreRecipe pantry)
     [garlic_chicken, chicken_soup, roast_chicken, garlic_bread, chicken_rice]
   = [50, 200 / 3, 100, 0, 100]"
  by (simp add: example_defs eval_simps)

lemma example_ranked:
  "findRecipesByAvailableIngredients example_store pantry 10
     = Inr [scoreRecipe pantry roast_chicken, scoreRecipe pantry chicken_rice,
            scoreRecipe pantry chicken_soup]"
  using example_scores
  by (simp add: findRecipesByAvailableIngredients_def example_fetch sortedRecipes_def
        sort_cmp_def slice_def) (simp add: pantry_def)



section \<open>Properties\<close>


text \<open>
  C2. The claim: the computed matchPercentage lies in the closed interval from 0 to
  100. It does not hold: the matching entries are counted per available ingredient,
  so two entries found in a recipe of one ingredient give 200.
\<close>

theorem C2_counterexample:
  "\<not> (0 \<le> matchPercentage (scoreRecipe [''chicken'', ''chick'']
            \<lparr> id_recipe = 1, title = ''Roast'', category = None, ingredients = ''chicken'' \<rparr>)
      \<and> matchPercentage (scoreRecipe [''chicken'', ''chick'']
            \<lparr> id_recipe = 1, title = ''Roast'', category = None, ingredients = ''chicken'' \<rparr>)
          \<le> 100)"
  by (simp add: eval_simps)

text \<open>
  C2, as amended. The matchPercentage is never negative and is at most 100 times
  the number of entries of availableIngredients; it is at most 100 whenever the
  matching entries are no more than the total count of ingredients.
\<close>

theorem C2_amended:
  "0 \<le> matchPercentage (scoreRecipe av r)
   \<and> matchPercentage (scoreRecipe av r) \<le> 100 * real (length av)
   \<and> (length (matchingIngredients av r) \<le> totalIngredients r
        \<longrightarrow> matchPercentage (scoreRecipe av r) \<le> 100)"
proof -
  define m where "m = real (length (matchingIngredients av r))"
  define t where "t = real (totalIngredients r)"
  define q where "q = m / t"
  have t: "1 \<le> t" using totalIngredients_pos [of r] by (simp add: t_def)
  have m0: "0 \<le> m" by (simp add: m_def)
  have m: "m \<le> real (length av)"
    using length_matchingIngredients_le [of av r] by (simp add: m_def)
  have q0: "0 \<le> q" using t m0 by (simp add: q_def)
  have qm: "q \<le> m" using t m0 by (simp add: q_def divide_le_eq mult_le_cancel_left1)
  have q1: "q \<le> 1" if "length (matchingIngredients av r) \<le> totalIngredients r"
  proof -
    from that have "m \<le> t" by (simp add: m_def t_def)
    with t show ?thesis by (simp add: q_def divide_le_eq)
  qed
  have p: "matchPercentage (scoreRecipe av r) = q * 100"
    by (simp add: matchPercentage_scoreRecipe q_def m_def t_def)
  have a: "q * 100 \<le> 100 * real (length av)" using qm m by linarith
  have b: "0 \<le> q * 100" using q0 by linarith
  have c: "q * 100 \<le> 100" if "length (matchingIngredients av r) \<le> totalIngredients r"
    using q1 [OF that] by linarith
  from a b c show ?thesis unfolding p by blast
qed

theorem C2_amended_witness:
  "length (matchingIngredients [''chicken'', ''rice'']
      \<lparr> id_recipe = 1, title = ''Pilaf'', category = None,
        ingredients = ''chicken, rice, onion, garlic, salt'' \<rparr>) \<le>
     totalIngredients \<lparr> id_recipe = 1, title = ''Pilaf'', category = None,
        ingredients = ''chicken, rice, onion, garlic, salt'' \<rparr>
   \<and> matchPercentage (scoreRecipe [''chicken'', ''rice'']
      \<lparr> id_recipe = 1, title = ''Pilaf'', category = None,
        ingredients = ''chicken, rice, onion, garlic, salt'' \<rparr>) \<le> 100"
  using C2_amended [of "[''chicken'', ''rice'']"
      "\<lparr> id_recipe = 1, title = ''Pilaf'', category = None,
        ingredients = ''chicken, rice, onion, garlic, salt'' \<rparr>"]
  by (simp add: eval_simps)

text \<open>
  C3. The claim: for a limit of zero or less the filter, sort and truncation
  return the empty sequence. The code truncates by slice(0, limit), where a
  negative limit counts from the end: with the limit -1 and three recipes above
  the threshold, two recipes are returned. (For the limit 0 the result is empty,
  and no limit raises an error.)
\<close>

theorem C3_negative_limit:
  "findRecipesByAvailableIngredients example_store pantry (- 1)
     = Inr [scoreRecipe pantry roast_chicken, scoreRecipe pantry chicken_rice]"
  using example_scores
  by (simp add: findRecipesByAvailableIngredients_def example_fetch sortedRecipes_def
        sort_cmp_def slice_def) (simp add: pantry_def)

text \<open>
  C4. The claim: the ingredients text, when empty or made of white space only, is
  split into an empty sequence of tokens. It does not hold: the split gives one
  token for both.
\<close>

theorem C4_counterexample:
  "\<not> (split_sep is_delim '''' = [] \<or> split_sep is_delim ''   '' = [])"
  by (simp add: is_delim_def)

text \<open>
  C4, as amended. The split of every ingredients text has at least one token, so
  the divisor totalIngredients of the scorer is never zero; an empty text or a
  text of white space only is split into one token, the text itself, and its
  total count is 1.
\<close>

theorem C4_amended:
  "0 < totalIngredients r
   \<and> ((\<forall>c\<in>set (ingredients r). is_space c)
        \<longrightarrow> split_sep is_delim (ingredients r) = [ingredients r] \<and> totalIngredients r = 1)"
proof -
  have pos: "0 < totalIngredients r"
    by (rule totalIngredients_pos)
  have one: "split_sep is_delim (ingredients r) = [ingredients r] \<and> totalIngredients r = 1"
    if "\<forall>c\<in>set (ingredients r). is_space c"
  proof -
    from that have "\<forall>c\<in>set (ingredients r). \<not> is_delim c"
      by (auto dest: is_delim_not_space)
    then have "split_sep is_delim (ingredients r) = [ingredients r]"
      by (rule split_sep_no_sep)
    then show ?thesis by (simp add: totalIngredients_def)
  qed
  from pos one show ?thesis by blast
qed

theorem C4_amended_witness:
  "is_space (CHR '' '')
   \<and> split_sep is_delim ''  '' = [''  '']
   \<and> totalIngredients \<lparr> id_recipe = 3, title = ''Water'', category = None, ingredients = ''  '' \<rparr> = 1"
  using C4_amended [of "\<lparr> id_recipe = 3, title = ''Water'', category = None, ingredients = ''  '' \<rparr>"]
  by (simp add: is_space_def)

text \<open>
  C6. Every entry of the sequence returned by findRecipesByAvailableIngredients has
  a matchPercentage strictly above 50; an entry of exactly 50 is not returned.
\<close>

theorem C6_threshold:
  "findRecipesByAvailableIngredients st av limit = Inr res
   \<Longrightarrow> \<forall>e\<in>set res. matchPercentage e > 50"
  using set_sortedRecipes
  by (fastforce simp: findRecipesByAvailableIngredients_def split: if_splits sum.splits)

theorem C6_threshold_witness:
  "findRecipesByAvailableIngredients example_store pantry 10
     = Inr [scoreRecipe pantry roast_chicken, scoreRecipe pantry chicken_rice,
            scoreRecipe pantry chicken_soup]
   \<and> 50 < matchPercentage (scoreRecipe pantry roast_chicken)
   \<and> 50 < matchPercentage (scoreRecipe pantry chicken_rice)
   \<and> 50 < matchPercentage (scoreRecipe pantry chicken_soup)"
  using C6_threshold [OF example_ranked] example_ranked by simp

text \<open>
  C7. The sequence returned by findRecipesByAvailableIngredients is in descending
  order of matchPercentage, and the entries of any one matchPercentage are in the
  order of the fetched recipes: they are the first of the fetched recipes of that
  matchPercentage, in the same order.
\<close>

theorem C7_sorted_stable:
  "findMany st (\<lambda>r. True) 1000 = Inr recipes
   \<Longrightarrow> findRecipesByAvailableIngredients st av limit = Inr res
   \<Longrightarrow> sorted_wrt (\<lambda>a b. matchPercentage b \<le> matchPercentage a) res
       \<and> (\<forall>v. prefix (filter (\<lambda>e. matchPercentage e = v) res)
                 (filter (\<lambda>e. matchPercentage e = v) (map (scoreRecipe av) recipes)))"
  using sorted_sortedRecipes stable_sortedRecipes
  by (auto simp: findRecipesByAvailableIngredients_def split: if_splits)

theorem C7_sorted_stable_witness:
  "findMany example_store (\<lambda>r. True) 1000
     = Inr [garlic_chicken, chicken_soup, roast_chicken, garlic_bread, chicken_rice]
   \<and> findRecipesByAvailableIngredients example_store pantry 10
     = Inr [scoreRecipe pantry roast_chicken, scoreRecipe pantry chicken_rice,
            scoreRecipe pantry chicken_soup]
   \<and> sorted_wrt (\<lambda>a b. matchPercentage b \<le> matchPercentage a)
        [scoreRecipe pantry roast_chicken, scoreRecipe pantry chicken_rice,
         scoreRecipe pantry chicken_soup]
   \<and> prefix (filter (\<lambda>e. matchPercentage e = 100)
               [scoreRecipe pantry roast_chicken, scoreRecipe pantry chicken_rice,
                scoreRecipe pantry chicken_soup])
        (filter (\<lambda>e. matchPercentage e = 100)
           (map (scoreRecipe pantry)
              [garlic_chicken, chicken_soup, roast_chicken, garlic_bread, chicken_rice]))"
  using C7_sorted_stable [OF example_fetch example_ranked] example_fetch example_ranked
  by blast

text \<open>
  C8. With an empty list of available ingredients the function returns the empty
  sequence at once, for every limit and every store: also for a store that would
  fail when read, so nothing is fetched and nothing is scored.
\<close>

theorem C8_empty_ingredients:
  "findRecipesByAvailableIngredients st [] limit = Inr []"
  by (simp add: findRecipesByAvailableIngredients_def)

text \<open>
  C9. For an identifier that no recipe of the store has, getSimilarRecipes fails
  with the error of the missing recipe: it returns neither a null nor an empty
  sequence.
\<close>

theorem C9_not_found:
  "recipeId \<notin> id_recipe ` set rows
   \<Longrightarrow> getSimilarRecipes (Table rows) recipeId limit = Inl (RecipeNotFound recipeId)"
proof -
  assume "recipeId \<notin> id_recipe ` set rows"
  then have "find (\<lambda>r. id_recipe r = recipeId) rows = None"
    by (auto simp: find_None_iff)
  then show ?thesis by (simp add: getSimilarRecipes_def)
qed

theorem C9_not_found_witness:
  "9 \<notin> id_recipe ` set [chicken_rice, garlic_bread, roast_chicken, chicken_soup, garlic_chicken]
   \<and> getSimilarRecipes example_store 9 3 = Inl (RecipeNotFound 9)"
  using C9_not_found [of 9 "[chicken_rice, garlic_bread, roast_chicken, chicken_soup, garlic_chicken]" 3]
  by (simp add: example_defs)

text \<open>
  C10. Appending one more ingredient to availableIngredients never decreases the
  number of matching ingredients of a recipe or its matchPercentage, and never
  increases its missingIngredientsCount.
\<close>

theorem C10_monotone:
  "length (matchingIngredients av r) \<le> length (matchingIngredients (av @ [x]) r)
   \<and> matchPercentage (scoreRecipe av r) \<le> matchPercentage (scoreRecipe (av @ [x]) r)
   \<and> missingIngredientsCount (scoreRecipe (av @ [x]) r)
       \<le> missingIngredientsCount (scoreRecipe av r)"
proof -
  have m: "length (matchingIngredients av r) \<le> length (matchingIngredients (av @ [x]) r)"
    by (simp add: matchingIngredients_def Let_def)
  have p: "matchPercentage (scoreRecipe av r) \<le> matchPercentage (scoreRecipe (av @ [x]) r)"
    unfolding matchPercentage_scoreRecipe using m
    by (intro mult_right_mono divide_right_mono) simp_all
  have c: "missingIngredientsCount (scoreRecipe (av @ [x]) r)
       \<le> missingIngredientsCount (scoreRecipe av r)"
    unfolding missingIngredientsCount_scoreRecipe using m by simp
  from m p c show ?thesis by simp
qed

end
